theory Spec2Isabelle
  imports Main
begin

section \<open>Values shared by the models\<close>

text \<open>
  The account-and-session backend of \<^verbatim>\<open>src/app\<close>: session tokens
  (\<^verbatim>\<open>models/session.py\<close>), the credential check (\<^verbatim>\<open>models/account.py\<close>),
  password verification (\<^verbatim>\<open>utils/security.py\<close>), the routes
  (\<^verbatim>\<open>routes/account.py\<close>) and the database event of \<^verbatim>\<open>db.py\<close>.

  A Python exception is a value of \<open>exn\<close>; a function that can raise returns
  \<open>exn + 'a\<close> with \<open>Inl\<close> the exception that reaches its caller. The classes are those
  of PyJWT (\<^verbatim>\<open>jwt.exceptions\<close>) and argon2-cffi (\<^verbatim>\<open>argon2.exceptions\<close>).
\<close>

datatype exn =
    DecodeError
  | InvalidSignatureError
  | InvalidAlgorithmError
  | InvalidIssuedAtError
  | ImmatureSignatureError
  | ExpiredSignatureError
  | InvalidAudienceError
  | InvalidKeyError
  | RecursionError
  | TypeError
  | OverflowError
  | ValueError
  | VerifyMismatchError
  | VerificationError
  | InvalidHashError

text \<open>
  \<^verbatim>\<open>isinstance(e, jwt.InvalidTokenError)\<close>. In PyJWT \<^verbatim>\<open>DecodeError\<close>,
  \<^verbatim>\<open>InvalidSignatureError\<close> (a \<^verbatim>\<open>DecodeError\<close>), \<^verbatim>\<open>InvalidAlgorithmError\<close>,
  \<^verbatim>\<open>InvalidIssuedAtError\<close>, \<^verbatim>\<open>ImmatureSignatureError\<close>,
  \<^verbatim>\<open>ExpiredSignatureError\<close> and \<^verbatim>\<open>InvalidAudienceError\<close> derive from
  \<^verbatim>\<open>InvalidTokenError\<close>; \<^verbatim>\<open>InvalidKeyError\<close> derives from \<^verbatim>\<open>PyJWTError\<close>
  only; \<^verbatim>\<open>RecursionError\<close>, \<^verbatim>\<open>TypeError\<close>, \<^verbatim>\<open>OverflowError\<close> and
  \<^verbatim>\<open>ValueError\<close> are Python's own, and the argon2 classes are unrelated.
\<close>

fun isinstance_InvalidTokenError :: "exn \<Rightarrow> bool" where
  "isinstance_InvalidTokenError DecodeError = True"
| "isinstance_InvalidTokenError InvalidSignatureError = True"
| "isinstance_InvalidTokenError InvalidAlgorithmError = True"
| "isinstance_InvalidTokenError InvalidIssuedAtError = True"
| "isinstance_InvalidTokenError ImmatureSignatureError = True"
| "isinstance_InvalidTokenError ExpiredSignatureError = True"
| "isinstance_InvalidTokenError InvalidAudienceError = True"
| "isinstance_InvalidTokenError InvalidKeyError = False"
| "isinstance_InvalidTokenError RecursionError = False"
| "isinstance_InvalidTokenError TypeError = False"
| "isinstance_InvalidTokenError OverflowError = False"
| "isinstance_InvalidTokenError ValueError = False"
| "isinstance_InvalidTokenError VerifyMismatchError = False"
| "isinstance_InvalidTokenError VerificationError = False"
| "isinstance_InvalidTokenError InvalidHashError = False"

text \<open>
  \<^verbatim>\<open>isinstance(e, argon2.exceptions.VerifyMismatchError)\<close>: the class has no
  subclass, and \<^verbatim>\<open>VerificationError\<close> is its base, not the other way round.
\<close>

fun isinstance_VerifyMismatchError :: "exn \<Rightarrow> bool" where
  "isinstance_VerifyMismatchError VerifyMismatchError = True"
| "isinstance_VerifyMismatchError _ = False"

text \<open>
  A clock reading, in whole POSIX seconds. The program uses a reading only through
  \<^verbatim>\<open>int(datetime.now().timestamp())\<close>, \<^verbatim>\<open>int(datetime.now().timestamp() + 2592000.0)\<close>
  and PyJWT's comparisons of the integer claims with the current time, and each of these
  depends on the whole seconds of the reading only.
\<close>

type_synonym datetime = int

text \<open>\<^verbatim>\<open>surrealdb.RecordID(table_name, id)\<close>.\<close>

datatype RecordID = RecordID (table_name: string) (id': string)


section \<open>SHA-256\<close>

text \<open>
  HMAC hashes a key that is longer than its block, so the hash function is part of
  what decides whether two keys sign alike. This is SHA-256 as FIPS 180-4 defines it, on
  byte strings, with 32-bit words as natural numbers below \<open>2 ^ 32\<close>.
\<close>

unbundle bit_operations_syntax

text \<open>
  The round constants are the first 32 bits of the fractional parts of the cube roots of
  the first 64 primes, and the initial hash value is made of those of the square roots of
  the first 8 primes. \<open>integer_root k n\<close> is the largest \<open>r\<close> below \<open>2 ^ 64\<close> with
  \<open>r ^ k \<le> n\<close>, found bit by bit.
\<close>

definition first_primes :: "nat list" where
  "first_primes = filter (\<lambda>p. list_all (\<lambda>d. \<not> d dvd p) [2 ..< p]) [2 ..< 312]"

definition integer_root :: "nat \<Rightarrow> nat \<Rightarrow> nat" where
  "integer_root k n =
     fold (\<lambda>b r. if (r + 2 ^ b) ^ k \<le> n then r + 2 ^ b else r) (rev [0 ..< 64]) 0"

definition fraction_bits :: "nat \<Rightarrow> nat \<Rightarrow> nat" where
  "fraction_bits k p = integer_root k (p * 2 ^ (32 * k)) mod 2 ^ 32"

definition K256 :: "nat list" where
  "K256 = map (fraction_bits 3) first_primes"

type_synonym sha_state = "nat \<times> nat \<times> nat \<times> nat \<times> nat \<times> nat \<times> nat \<times> nat"

definition H256 :: sha_state where
  "H256 =
     (fraction_bits 2 2, fraction_bits 2 3, fraction_bits 2 5, fraction_bits 2 7,
      fraction_bits 2 11, fraction_bits 2 13, fraction_bits 2 17, fraction_bits 2 19)"

definition w32 :: "nat \<Rightarrow> nat" where
  "w32 x = x mod 4294967296"

definition rotr :: "nat \<Rightarrow> nat \<Rightarrow> nat" where
  "rotr n x = x div 2 ^ n + (x mod 2 ^ n) * 2 ^ (32 - n)"

definition not32 :: "nat \<Rightarrow> nat" where
  "not32 x = 4294967295 - x"

fun be_bytes :: "nat \<Rightarrow> nat \<Rightarrow> string" where
  "be_bytes 0 n = []"
| "be_bytes (Suc k) n = be_bytes k (n div 256) @ [char_of (n mod 256)]"

definition be_word :: "string \<Rightarrow> nat" where
  "be_word bs = foldl (\<lambda>w c. 256 * w + of_char c) 0 bs"

definition sha256_pad :: "string \<Rightarrow> string" where
  "sha256_pad m =
     m @ [CHR 0x80] @ replicate ((119 - length m mod 64) mod 64) (CHR 0x00)
       @ be_bytes 8 (8 * length m)"

definition sha256_blocks :: "string \<Rightarrow> string list" where
  "sha256_blocks m = map (\<lambda>i. take 64 (drop (64 * i) m)) [0 ..< length m div 64]"

definition ssig0 :: "nat \<Rightarrow> nat" where
  "ssig0 x = rotr 7 x XOR rotr 18 x XOR x div 2 ^ 3"

definition ssig1 :: "nat \<Rightarrow> nat" where
  "ssig1 x = rotr 17 x XOR rotr 19 x XOR x div 2 ^ 10"

definition bsig0 :: "nat \<Rightarrow> nat" where
  "bsig0 x = rotr 2 x XOR rotr 13 x XOR rotr 22 x"

definition bsig1 :: "nat \<Rightarrow> nat" where
  "bsig1 x = rotr 6 x XOR rotr 11 x XOR rotr 25 x"

fun extend_schedule :: "nat \<Rightarrow> nat list \<Rightarrow> nat list" where
  "extend_schedule 0 ws = ws"
| "extend_schedule (Suc n) ws =
     extend_schedule n
       (ws @ [w32 (ssig1 (ws ! (length ws - 2)) + ws ! (length ws - 7)
                   + ssig0 (ws ! (length ws - 15)) + ws ! (length ws - 16))])"

definition schedule :: "string \<Rightarrow> nat list" where
  "schedule block =
     extend_schedule 48 (map (\<lambda>i. be_word (take 4 (drop (4 * i) block))) [0 ..< 16])"

fun sha_round :: "sha_state \<Rightarrow> nat \<times> nat \<Rightarrow> sha_state" where
  "sha_round (a, b, c, d, e, f, g, h) (k, w) =
     (let t1 = h + bsig1 e + ((e AND f) XOR (not32 e AND g)) + k + w;
          t2 = bsig0 a + ((a AND b) XOR (a AND c) XOR (b AND c))
      in (w32 (t1 + t2), a, b, c, w32 (d + t1), e, f, g))"

fun sha_add :: "sha_state \<Rightarrow> sha_state \<Rightarrow> sha_state" where
  "sha_add (a, b, c, d, e, f, g, h) (a', b', c', d', e', f', g', h') =
     (w32 (a + a'), w32 (b + b'), w32 (c + c'), w32 (d + d'), w32 (e + e'), w32 (f + f'),
      w32 (g + g'), w32 (h + h'))"

definition compress :: "sha_state \<Rightarrow> string \<Rightarrow> sha_state" where
  "compress st block = sha_add st (foldl sha_round st (zip K256 (schedule block)))"

fun digest_bytes :: "sha_state \<Rightarrow> string" where
  "digest_bytes (a, b, c, d, e, f, g, h) =
     concat (map (be_bytes 4) [a, b, c, d, e, f, g, h])"

definition sha256 :: "string \<Rightarrow> string" where
  "sha256 m = digest_bytes (foldl compress H256 (sha256_blocks (sha256_pad m)))"


section \<open>The JWT library, as the program uses it\<close>

text \<open>
  \<^verbatim>\<open>jwt.encode(payload, key, algorithm="HS256")\<close> and
  \<^verbatim>\<open>jwt.decode(token, key, algorithms=["HS256"])\<close> are calls into PyJWT. A token
  string is represented by what the library's parser makes of it: \<open>NotJws\<close> is a string
  it refuses with \<^verbatim>\<open>DecodeError\<close> (not three base64url segments, or a header that is
  not a JSON object), \<open>DeepHeader\<close> a string whose header segment is JSON nested deeper
  than the interpreter's recursion limit, on which \<^verbatim>\<open>json.loads\<close> raises
  \<^verbatim>\<open>RecursionError\<close>, and \<open>Jws\<close> carries the header's \<^verbatim>\<open>alg\<close>, the payload
  and the signature. A payload is likewise \<open>NotJsonObject\<close>, \<open>DeepPayload\<close> or the
  JSON object with its claims.

  The library converts \<^verbatim>\<open>iat\<close>, \<^verbatim>\<open>nbf\<close> and \<^verbatim>\<open>exp\<close> with \<^verbatim>\<open>int(...)\<close>;
  a value of these claims is represented by what \<^verbatim>\<open>int\<close> makes of it: an integer,
  \<^verbatim>\<open>ValueError\<close> (a string that is no number, a NaN), \<^verbatim>\<open>TypeError\<close>
  (\<^verbatim>\<open>null\<close>, an array, an object) or \<^verbatim>\<open>OverflowError\<close> (an infinite float).
\<close>

datatype numeric_claim = IntValue int | NoIntValue | NoIntType | NoIntOverflow

record claims =
  c_iat :: "numeric_claim option"
  c_nbf :: "numeric_claim option"
  c_exp :: "numeric_claim option"
  c_aud :: "string option"
  c_private :: "(string \<times> string) list"

datatype payload = NotJsonObject string | DeepPayload string | JsonObject claims

text \<open>
  The key of an HMAC as RFC 2104 normalises it: a key longer than the 64-byte block is
  replaced by its SHA-256 digest, and the key is then padded with NUL bytes to the block.
\<close>

definition hmac_block :: "string \<Rightarrow> string" where
  "hmac_block k =
     (let k' = (if length k > 64 then sha256 k else k)
      in k' @ replicate (64 - length k') (CHR 0x00))"

text \<open>
  An HMAC-SHA256 value is the term \<open>HMAC_SHA256\<close> of the key block and of the header
  and payload it signs; two such values are taken to be equal only if the block and the
  signed data are. \<open>NoMac\<close> is a signature segment that is the HMAC of nothing.
\<close>

datatype signature = HMAC_SHA256 string "string option" payload | NoMac string

datatype token =
    NotJws string
  | DeepHeader string
  | Jws (alg: "string option") (body: payload) (sig: signature)

text \<open>
  \<^verbatim>\<open>HMACAlgorithm.prepare_key\<close> refuses a secret that looks like an asymmetric key:
  \<^verbatim>\<open>is_pem_format\<close> searches the key for a PEM block
  (\<^verbatim>\<open>----[- ]BEGIN (label)[- ]----\r?\n.+?\r?\n----[- ]END \1[- ]----\<close>), and
  \<^verbatim>\<open>is_ssh_key\<close> looks for the name of an OpenSSH key format anywhere in the key or
  for a first word that ends in \<^verbatim>\<open>-cert-v01@openssh.com\<close> and is followed by blanks
  and a second word.
\<close>

fun remainders_after :: "string \<Rightarrow> string \<Rightarrow> string list" where
  "remainders_after p [] = (if p = [] then [[]] else [])"
| "remainders_after p (c # cs) =
     (if take (length p) (c # cs) = p then [drop (length p) (c # cs)] else [])
       @ remainders_after p cs"

definition contains :: "string \<Rightarrow> string \<Rightarrow> bool" where
  "contains p s = (remainders_after p s \<noteq> [])"

definition pem_labels :: "string list" where
  "pem_labels =
     [''CERTIFICATE'', ''TRUSTED CERTIFICATE'', ''PRIVATE KEY'', ''PUBLIC KEY'',
      ''ENCRYPTED PRIVATE KEY'', ''OPENSSH PRIVATE KEY'', ''DSA PRIVATE KEY'',
      ''RSA PRIVATE KEY'', ''RSA PUBLIC KEY'', ''EC PRIVATE KEY'', ''DH PARAMETERS'',
      ''NEW CERTIFICATE REQUEST'', ''CERTIFICATE REQUEST'', ''SSH2 PUBLIC KEY'',
      ''SSH2 ENCRYPTED PRIVATE KEY'', ''X509 CRL'']"

definition is_pem_format :: "string \<Rightarrow> bool" where
  "is_pem_format k =
     list_ex (\<lambda>label.
       list_ex (\<lambda>x. list_ex (\<lambda>y. list_ex (\<lambda>r.
         list_ex (\<lambda>rest.
             rest \<noteq> [] \<and>
             list_ex (\<lambda>x'. list_ex (\<lambda>y'.
                 contains ([CHR 0x0A] @ ''----'' @ x' @ ''END '' @ label @ y' @ ''----'')
                   (tl rest))
               [''-'', '' '']) [''-'', '' ''])
           (remainders_after
              (''----'' @ x @ ''BEGIN '' @ label @ y @ ''----'' @ r @ [CHR 0x0A]) k))
         [[], [CHR 0x0D]]) [''-'', '' '']) [''-'', '' ''])
       pem_labels"

definition ssh_key_formats :: "string list" where
  "ssh_key_formats =
     [''ssh-ed25519'', ''ssh-rsa'', ''ssh-dss'', ''ecdsa-sha2-nistp256'',
      ''ecdsa-sha2-nistp384'', ''ecdsa-sha2-nistp521'']"

definition is_space :: "char \<Rightarrow> bool" where
  "is_space c = (c \<in> set [CHR '' '', CHR 0x09, CHR 0x0A, CHR 0x0B, CHR 0x0C, CHR 0x0D])"

definition is_blank :: "char \<Rightarrow> bool" where
  "is_blank c = (c = CHR '' '' \<or> c = CHR 0x09)"

definition is_ssh_key :: "string \<Rightarrow> bool" where
  "is_ssh_key k =
     (list_ex (\<lambda>f. contains f k) ssh_key_formats
      \<or> (let key_type = takeWhile (\<lambda>c. \<not> is_space c) k;
              rest = dropWhile (\<lambda>c. \<not> is_space c) k;
              second = dropWhile is_blank rest
          in key_type \<noteq> []
             \<and> (case rest of [] \<Rightarrow> False | c # _ \<Rightarrow> is_blank c)
             \<and> (case second of [] \<Rightarrow> False | c # _ \<Rightarrow> \<not> is_space c)
             \<and> drop (length key_type - length ''-cert-v01@openssh.com'') key_type
                 = ''-cert-v01@openssh.com''))"

definition prepare_key :: "string \<Rightarrow> exn + string" where
  "prepare_key k =
     (if is_pem_format k \<or> is_ssh_key k then Inl InvalidKeyError else Inr k)"

text \<open>
  \<^verbatim>\<open>jwt.encode\<close>: the token for a secret the library accepts. (It prepares the key
  as \<^verbatim>\<open>jwt.decode\<close> does, and a session's key has gone through it when the session
  was generated.)
\<close>

definition jwt_encode :: "claims \<Rightarrow> string \<Rightarrow> token" where
  "jwt_encode c k =
     Jws (Some ''HS256'') (JsonObject c)
       (HMAC_SHA256 (hmac_block k) (Some ''HS256'') (JsonObject c))"

text \<open>\<^verbatim>\<open>int(payload[name])\<close>.\<close>

definition python_int :: "numeric_claim \<Rightarrow> exn + int" where
  "python_int v =
     (case v of
        IntValue i \<Rightarrow> Inr i
      | NoIntValue \<Rightarrow> Inl ValueError
      | NoIntType \<Rightarrow> Inl TypeError
      | NoIntOverflow \<Rightarrow> Inl OverflowError)"

text \<open>
  \<^verbatim>\<open>_validate_iat\<close>, \<^verbatim>\<open>_validate_nbf\<close> and \<^verbatim>\<open>_validate_exp\<close>: each catches
  the \<^verbatim>\<open>ValueError\<close> of \<^verbatim>\<open>int\<close> and nothing else of it. \<open>now\<close> is the clock
  reading the library takes, and the leeway is zero.
\<close>

definition validate_iat :: "numeric_claim \<Rightarrow> datetime \<Rightarrow> exn + unit" where
  "validate_iat v now =
     (case python_int v of
        Inl e \<Rightarrow> if e = ValueError then Inl InvalidIssuedAtError else Inl e
      | Inr i \<Rightarrow> if i > now then Inl ImmatureSignatureError else Inr ())"

definition validate_nbf :: "numeric_claim \<Rightarrow> datetime \<Rightarrow> exn + unit" where
  "validate_nbf v now =
     (case python_int v of
        Inl e \<Rightarrow> if e = ValueError then Inl DecodeError else Inl e
      | Inr n \<Rightarrow> if n > now then Inl ImmatureSignatureError else Inr ())"

definition validate_exp :: "numeric_claim \<Rightarrow> datetime \<Rightarrow> exn + unit" where
  "validate_exp v now =
     (case python_int v of
        Inl e \<Rightarrow> if e = ValueError then Inl DecodeError else Inl e
      | Inr x \<Rightarrow> if x \<le> now then Inl ExpiredSignatureError else Inr ())"

text \<open>
  \<^verbatim>\<open>_validate_claims\<close> with the default options and no audience: the checks of
  \<^verbatim>\<open>iat\<close>, \<^verbatim>\<open>nbf\<close> and \<^verbatim>\<open>exp\<close> in this order for the claims that are
  present, and a non-empty \<^verbatim>\<open>aud\<close> is refused.
\<close>

definition validate_claims :: "claims \<Rightarrow> datetime \<Rightarrow> exn + claims" where
  "validate_claims c now =
     (case (case c_iat c of None \<Rightarrow> Inr () | Some v \<Rightarrow> validate_iat v now) of
        Inl e \<Rightarrow> Inl e
      | Inr _ \<Rightarrow>
          (case (case c_nbf c of None \<Rightarrow> Inr () | Some v \<Rightarrow> validate_nbf v now) of
             Inl e \<Rightarrow> Inl e
           | Inr _ \<Rightarrow>
               (case (case c_exp c of None \<Rightarrow> Inr () | Some v \<Rightarrow> validate_exp v now) of
                  Inl e \<Rightarrow> Inl e
                | Inr _ \<Rightarrow>
                    if (case c_aud c of Some a \<Rightarrow> a \<noteq> [] | None \<Rightarrow> False)
                    then Inl InvalidAudienceError
                    else Inr c)))"

text \<open>
  \<^verbatim>\<open>jwt.decode(token, key, algorithms)\<close> at clock reading \<open>now\<close>: parse, check
  the algorithm, prepare the key, verify the signature, read the payload, check the
  claims. HS256 is the one algorithm of the model.
\<close>

definition jwt_decode :: "token \<Rightarrow> string \<Rightarrow> string list \<Rightarrow> datetime \<Rightarrow> exn + claims" where
  "jwt_decode t k algorithms now =
     (case t of
        NotJws _ \<Rightarrow> Inl DecodeError
      | DeepHeader _ \<Rightarrow> Inl RecursionError
      | Jws a p sg \<Rightarrow>
          (case a of
             None \<Rightarrow> Inl InvalidAlgorithmError
           | Some name \<Rightarrow>
               if name \<notin> set algorithms \<or> name \<noteq> ''HS256'' then Inl InvalidAlgorithmError
               else
                 (case prepare_key k of
                    Inl e \<Rightarrow> Inl e
                  | Inr k' \<Rightarrow>
                      if sg \<noteq> HMAC_SHA256 (hmac_block k') a p then Inl InvalidSignatureError
                      else
                        (case p of
                           NotJsonObject _ \<Rightarrow> Inl DecodeError
                         | DeepPayload _ \<Rightarrow> Inl RecursionError
                         | JsonObject c \<Rightarrow> validate_claims c now))))"


section \<open>Sessions (models/session.py)\<close>

record JwtPayload =
  account_id :: string
  random_part :: string
  device_id :: string
  iat :: int
  exp :: int

text \<open>\<^verbatim>\<open>payload.model_dump()\<close>: the dictionary handed to \<^verbatim>\<open>jwt.encode\<close>.\<close>

definition model_dump :: "JwtPayload \<Rightarrow> claims" where
  "model_dump p =
     \<lparr> c_iat = Some (IntValue (iat p)), c_nbf = None, c_exp = Some (IntValue (exp p)),
       c_aud = None,
       c_private = [(''account_id'', account_id p), (''random_part'', random_part p),
                    (''device_id'', device_id p)] \<rparr>"

text \<open>The fields of \<^verbatim>\<open>Session\<close>; \<open>session_id\<close> is its \<^verbatim>\<open>id\<close>.\<close>

record Session =
  session_id :: RecordID
  account :: RecordID
  key :: string
  token :: token
  created_at :: datetime
  updated_at :: datetime

text \<open>
  \<^verbatim>\<open>timedelta(days=30).total_seconds()\<close>.
\<close>

definition thirty_days :: int where
  "thirty_days = 30 * 24 * 60 * 60"

text \<open>
  \<^verbatim>\<open>Session.generate_token(account, device_id, key)\<close>. Its three reads of the
  environment are arguments: \<open>rnd\<close> is \<^verbatim>\<open>secrets.token_hex(8)\<close>, \<open>now_iat\<close> the
  \<^verbatim>\<open>datetime.now()\<close> of the \<^verbatim>\<open>iat\<close> line and \<open>now_exp\<close> the one of the
  \<^verbatim>\<open>exp\<close> line.
\<close>

definition generate_token ::
  "RecordID \<Rightarrow> string \<Rightarrow> string \<Rightarrow> string \<Rightarrow> datetime \<Rightarrow> datetime \<Rightarrow> token" where
  "generate_token acc dev k rnd now_iat now_exp =
     jwt_encode
       (model_dump \<lparr> account_id = id' acc, random_part = rnd, device_id = dev,
                     iat = now_iat, exp = now_exp + thirty_days \<rparr>)
       k"

text \<open>
  \<^verbatim>\<open>Session.generate(account, device_id)\<close>: \<open>time_now\<close> is its own
  \<^verbatim>\<open>datetime.now()\<close>, \<open>k\<close> is \<^verbatim>\<open>utils.generate_key(32)\<close>.
\<close>

definition generate ::
  "RecordID \<Rightarrow> string \<Rightarrow> datetime \<Rightarrow> string \<Rightarrow> string \<Rightarrow> datetime \<Rightarrow> datetime \<Rightarrow> Session" where
  "generate acc dev time_now k rnd now_iat now_exp =
     \<lparr> session_id = RecordID ''session'' dev,
       account = acc,
       key = k,
       token = generate_token acc dev k rnd now_iat now_exp,
       created_at = time_now,
       updated_at = time_now \<rparr>"

text \<open>
  \<^verbatim>\<open>Session.is_valid_token(token)\<close>: the two handlers of the \<^verbatim>\<open>try\<close> in their
  order; an exception neither handler matches reaches the caller. \<open>now\<close> is the clock
  reading \<^verbatim>\<open>jwt.decode\<close> takes.
\<close>

definition is_valid_token :: "Session \<Rightarrow> datetime \<Rightarrow> token \<Rightarrow> exn + bool" where
  "is_valid_token self now t =
     (case jwt_decode t (key self) [''HS256''] now of
        Inr _ \<Rightarrow> Inr True
      | Inl e \<Rightarrow>
          if e = ExpiredSignatureError then Inr False
          else if isinstance_InvalidTokenError e then Inr False
          else Inl e)"

text \<open>\<^verbatim>\<open>Session.refresh()\<close>: a new token from the session's own account, id and key.\<close>

definition refresh :: "Session \<Rightarrow> string \<Rightarrow> datetime \<Rightarrow> datetime \<Rightarrow> Session" where
  "refresh self rnd now_iat now_exp =
     self \<lparr> token := generate_token (account self) (id' (session_id self)) (key self)
                       rnd now_iat now_exp \<rparr>"


section \<open>The database (db.py) and its rows\<close>

text \<open>
  The \<^verbatim>\<open>session\<close> table is read and written by record id only, so it is a map
  from record ids to \<^verbatim>\<open>Session\<close> rows. The \<^verbatim>\<open>account\<close> table is also searched
  by username and e-mail, so it is the list of its \<^verbatim>\<open>Account\<close> rows.
\<close>

text \<open>
  A stored password is the string \<^verbatim>\<open>argon2.PasswordHasher\<close> made, represented by
  what the library reads from it: \<open>Argon2id salt pw\<close> is the hash string of password
  \<open>pw\<close> under \<open>salt\<close> (the hash is taken to determine the password), \<open>Undecodable\<close> a
  string with an Argon2 header that the library cannot decode, \<open>NotArgon2\<close> a string with
  no Argon2 header.
\<close>

datatype hash_string = Argon2id string string | Undecodable string | NotArgon2 string

record Profile =
  avatar :: "string option"
  bio :: "string option"
  phone :: "string option"
  location :: "string option"
  website :: "string option"
  github :: "string option"

text \<open>The fields of \<^verbatim>\<open>Account\<close>; \<open>acct_id\<close> is its \<^verbatim>\<open>id\<close>.\<close>

record Account =
  acct_id :: "RecordID option"
  username :: string
  password :: hash_string
  email :: "string option"
  profile :: Profile
  rating :: int
  credit_score :: int
  is_admin :: bool
  is_active :: bool
  acct_created_at :: datetime
  acct_updated_at :: datetime

record database =
  accounts :: "Account list"
  sessions :: "RecordID \<rightharpoonup> Session"

text \<open>\<^verbatim>\<open>db.select(id)\<close> on either table.\<close>

definition select_session :: "database \<Rightarrow> RecordID \<Rightarrow> Session option" where
  "select_session db rid = sessions db rid"

definition select_account :: "database \<Rightarrow> RecordID \<Rightarrow> Account option" where
  "select_account db rid = find (\<lambda>a. acct_id a = Some rid) (accounts db)"

text \<open>
  \<^verbatim>\<open>db.upsert(id, row)\<close> on the session table: the row replaces the one stored under
  the id, or is added.
\<close>

definition upsert_session :: "RecordID \<Rightarrow> Session \<Rightarrow> database \<Rightarrow> database" where
  "upsert_session rid s db = db \<lparr> sessions := (sessions db)(rid \<mapsto> s) \<rparr>"

text \<open>\<^verbatim>\<open>db.delete(id)\<close> on the session table: the deleted row, if there was one.\<close>

definition delete_session :: "RecordID \<Rightarrow> database \<Rightarrow> Session option \<times> database" where
  "delete_session rid db =
     (select_session db rid, db \<lparr> sessions := (sessions db)(rid := None) \<rparr>)"

text \<open>
  The event \<^verbatim>\<open>init_surrealdb\<close> defines on the account table:
  \<^verbatim>\<open>WHEN $event = 'DELETE' THEN (DELETE session WHERE account = $before.id)\<close>.
\<close>

definition delete_sessions :: "RecordID \<Rightarrow> database \<Rightarrow> database" where
  "delete_sessions before_id db =
     db \<lparr> sessions :=
            (\<lambda>rid. case sessions db rid of
                     None \<Rightarrow> None
                   | Some s \<Rightarrow> if account s = before_id then None else Some s) \<rparr>"

text \<open>
  \<^verbatim>\<open>db.delete(id)\<close> on the account table: the row goes, and the event runs for
  it.
\<close>

definition delete_account_row :: "RecordID \<Rightarrow> database \<Rightarrow> Account option \<times> database" where
  "delete_account_row rid db =
     (case select_account db rid of
        None \<Rightarrow> (None, db)
      | Some a \<Rightarrow>
          (Some a,
           delete_sessions rid
             (db \<lparr> accounts := filter (\<lambda>a. acct_id a \<noteq> Some rid) (accounts db) \<rparr>)))"

text \<open>
  \<^verbatim>\<open>Session.get_by_id\<close>, \<^verbatim>\<open>Session.save_on\<close> (the session with its new
  \<^verbatim>\<open>updated_at\<close>, the saved row, the database) and \<^verbatim>\<open>Session.delete_on\<close>.
\<close>

definition get_by_id :: "database \<Rightarrow> RecordID \<Rightarrow> Session option" where
  "get_by_id db rid = select_session db rid"

definition save_on :: "Session \<Rightarrow> datetime \<Rightarrow> database \<Rightarrow> Session \<times> Session option \<times> database" where
  "save_on self now db =
     (let self' = self \<lparr> updated_at := now \<rparr>
      in (self', Some self', upsert_session (session_id self') self' db))"

definition delete_on :: "Session \<Rightarrow> database \<Rightarrow> Session option \<times> database" where
  "delete_on self db = delete_session (session_id self) db"

text \<open>
  \<^verbatim>\<open>Session.refresh_and_save_on\<close>: refresh, save, and return the session itself
  (not the saved row).
\<close>

definition refresh_and_save_on ::
  "Session \<Rightarrow> string \<Rightarrow> datetime \<Rightarrow> datetime \<Rightarrow> datetime \<Rightarrow> database \<Rightarrow> Session \<times> database" where
  "refresh_and_save_on self rnd now_iat now_exp now_save db =
     (case save_on (refresh self rnd now_iat now_exp) now_save db of
        (self', _, db') \<Rightarrow> (self', db'))"


section \<open>Passwords (utils/security.py)\<close>

text \<open>
  \<^verbatim>\<open>pwd_hasher.verify(hash, password)\<close> of argon2-cffi: true on a match,
  \<^verbatim>\<open>VerifyMismatchError\<close> on a mismatch, \<^verbatim>\<open>VerificationError\<close> when the library
  cannot decode the hash, \<^verbatim>\<open>InvalidHashError\<close> when the string has no Argon2 header.
\<close>

definition pwd_hasher_verify :: "hash_string \<Rightarrow> string \<Rightarrow> exn + bool" where
  "pwd_hasher_verify h pw =
     (case h of
        Argon2id salt pw' \<Rightarrow> if pw = pw' then Inr True else Inl VerifyMismatchError
      | Undecodable _ \<Rightarrow> Inl VerificationError
      | NotArgon2 _ \<Rightarrow> Inl InvalidHashError)"

text \<open>\<^verbatim>\<open>verify_password(password, hashed_password)\<close>: its one handler.\<close>

definition verify_password :: "string \<Rightarrow> hash_string \<Rightarrow> exn + bool" where
  "verify_password pw hashed_password =
     (case pwd_hasher_verify hashed_password pw of
        Inr _ \<Rightarrow> Inr True
      | Inl e \<Rightarrow> if isinstance_VerifyMismatchError e then Inr False else Inl e)"


section \<open>Accounts and credentials (models/account.py)\<close>

text \<open>\<^verbatim>\<open>Account.get_by_id\<close>, \<^verbatim>\<open>Account.get_by_identity\<close>, \<^verbatim>\<open>Account.delete_on\<close>.\<close>

definition account_get_by_id :: "database \<Rightarrow> RecordID \<Rightarrow> Account option" where
  "account_get_by_id db rid = select_account db rid"

definition get_by_identity :: "database \<Rightarrow> string \<Rightarrow> Account option" where
  "get_by_identity db ident =
     (case filter (\<lambda>a. username a = ident \<or> email a = Some ident) (accounts db) of
        [a] \<Rightarrow> Some a
      | _ \<Rightarrow> None)"

definition account_delete_on :: "Account \<Rightarrow> database \<Rightarrow> Account option \<times> database" where
  "account_delete_on self db =
     (case acct_id self of
        None \<Rightarrow> (None, db)
      | Some rid \<Rightarrow> delete_account_row rid db)"

text \<open>
  The fields of \<^verbatim>\<open>Login\<close> and of \<^verbatim>\<open>Credentials\<close>; \<open>cred_username\<close>,
  \<open>cred_token\<close> and \<open>cred_device_id\<close> are \<^verbatim>\<open>username\<close>, \<^verbatim>\<open>token\<close> and
  \<^verbatim>\<open>device_id\<close> of \<^verbatim>\<open>Credentials\<close>.
\<close>

record Login =
  identity :: string
  login_password :: string
  login_device_id :: string

record Credentials =
  user_id :: string
  cred_username :: string
  cred_token :: token
  cred_device_id :: string

text \<open>
  \<^verbatim>\<open>Credentials.is_valid_on(db)\<close>. A \<^verbatim>\<open>Session\<close> always has an id, so
  \<^verbatim>\<open>session.id is None\<close> is false; \<^verbatim>\<open>and\<close> does not validate the token when the
  account differs.
\<close>

definition is_valid_on :: "Credentials \<Rightarrow> database \<Rightarrow> datetime \<Rightarrow> exn + bool" where
  "is_valid_on self db now =
     (case get_by_id db (RecordID ''session'' (cred_device_id self)) of
        None \<Rightarrow> Inr False
      | Some session \<Rightarrow>
          if id' (account session) = user_id self
          then is_valid_token session now (cred_token self)
          else Inr False)"


section \<open>The routes (routes/account.py)\<close>

record UserToken =
  ut_user_id :: string
  ut_username :: string
  ut_token :: token

record 'a Response =
  message :: string
  data :: "'a option"
  code :: int

text \<open>
  What one request reads from its environment: \<open>env_key\<close> is
  \<^verbatim>\<open>utils.generate_key(32)\<close>, \<open>env_random_part\<close> is \<^verbatim>\<open>secrets.token_hex(8)\<close>,
  and the others are the \<^verbatim>\<open>datetime.now()\<close> of \<^verbatim>\<open>Session.generate\<close>, of the two
  lines of \<^verbatim>\<open>generate_token\<close> and of \<^verbatim>\<open>save_on\<close>.
\<close>

record environment =
  env_key :: string
  env_random_part :: string
  env_now_generate :: datetime
  env_now_iat :: datetime
  env_now_exp :: datetime
  env_now_save :: datetime

text \<open>
  \<^verbatim>\<open>login(data)\<close> (\<open>req\<close> is its \<^verbatim>\<open>data\<close>): the response and the database it leaves; an exception of
  \<^verbatim>\<open>verify_password\<close> leaves the route.
\<close>

definition login :: "Login \<Rightarrow> environment \<Rightarrow> database \<Rightarrow> exn + (UserToken Response \<times> database)" where
  "login req env db =
     (case get_by_identity db (identity req) of
        None \<Rightarrow> Inr (\<lparr> message = ''Account not found.'', data = None, code = 4 \<rparr>, db)
      | Some acct \<Rightarrow>
          (case acct_id acct of
             None \<Rightarrow> Inr (\<lparr> message = ''Account not found.'', data = None, code = 4 \<rparr>, db)
           | Some aid \<Rightarrow>
               (case verify_password (login_password req) (password acct) of
                  Inl e \<Rightarrow> Inl e
                | Inr ok \<Rightarrow>
                    if \<not> ok
                    then Inr (\<lparr> message = ''Invalid password.'', data = None, code = 2 \<rparr>, db)
                    else
                      (case
                         (case get_by_id db (RecordID ''session'' (login_device_id req)) of
                            Some exist_session \<Rightarrow>
                              (case refresh_and_save_on exist_session (env_random_part env)
                                      (env_now_iat env) (env_now_exp env) (env_now_save env) db of
                                 (s, db') \<Rightarrow> (Some s, db'))
                          | None \<Rightarrow>
                              (case save_on
                                      (generate aid (login_device_id req) (env_now_generate env)
                                         (env_key env) (env_random_part env)
                                         (env_now_iat env) (env_now_exp env))
                                      (env_now_save env) db of
                                 (_, saved, db') \<Rightarrow> (saved, db')))
                       of
                         (None, db') \<Rightarrow>
                           Inr (\<lparr> message = ''Failed to create or update session.'',
                                  data = None, code = 5 \<rparr>, db')
                       | (Some session, db') \<Rightarrow>
                           Inr (\<lparr> message = ''Logged in successfully.'',
                                  data = Some \<lparr> ut_user_id = id' aid,
                                                ut_username = username acct,
                                                ut_token = token session \<rparr>,
                                  code = 0 \<rparr>, db')))))"

text \<open>\<^verbatim>\<open>delete_account(credentials)\<close>, at clock reading \<open>now\<close>.\<close>

definition delete_account ::
  "Credentials \<Rightarrow> datetime \<Rightarrow> database \<Rightarrow> exn + (unit Response \<times> database)" where
  "delete_account credentials now db =
     (case is_valid_on credentials db now of
        Inl e \<Rightarrow> Inl e
      | Inr ok \<Rightarrow>
          if \<not> ok
          then Inr (\<lparr> message = ''Invalid credentials.'', data = None, code = 2 \<rparr>, db)
          else
            (case account_get_by_id db (RecordID ''account'' (user_id credentials)) of
               None \<Rightarrow> Inr (\<lparr> message = ''Account not found.'', data = None, code = 4 \<rparr>, db)
             | Some acct \<Rightarrow>
                 (case acct_id acct of
                    None \<Rightarrow>
                      Inr (\<lparr> message = ''Account not found.'', data = None, code = 4 \<rparr>, db)
                  | Some _ \<Rightarrow>
                      (case account_delete_on acct db of
                         (None, db') \<Rightarrow>
                           Inr (\<lparr> message = ''Failed to delete account.'',
                                  data = None, code = 5 \<rparr>, db')
                       | (Some removed, db') \<Rightarrow>
                           (case acct_id removed of
                              None \<Rightarrow>
                                Inr (\<lparr> message = ''Failed to delete account.'',
                                       data = None, code = 5 \<rparr>, db')
                            | Some _ \<Rightarrow>
                                Inr (\<lparr> message = ''Account deleted successfully.'',
                                       data = None, code = 0 \<rparr>, db'))))))"


section \<open>What a token says about itself\<close>

text \<open>
  The \<^verbatim>\<open>iat\<close> and the \<^verbatim>\<open>exp\<close> claim a token carries, if it is a JWS with a
  JSON object as payload and the object has the claim as an integer.
\<close>

definition issued_at :: "token \<Rightarrow> int option" where
  "issued_at t =
     (case t of
        Jws _ (JsonObject c) _ \<Rightarrow>
          (case c_iat c of Some (IntValue i) \<Rightarrow> Some i | _ \<Rightarrow> None)
      | _ \<Rightarrow> None)"

definition expires_at :: "token \<Rightarrow> int option" where
  "expires_at t =
     (case t of
        Jws _ (JsonObject c) _ \<Rightarrow>
          (case c_exp c of Some (IntValue e) \<Rightarrow> Some e | _ \<Rightarrow> None)
      | _ \<Rightarrow> None)"


section \<open>A scenario\<close>

text \<open>
  Two accounts and one session: Bob is logged in on device \<^verbatim>\<open>d1\<close>, and Alice then
  logs in on the same device. The properties below are run on it.
\<close>

definition sample_key :: string where
  "sample_key = ''q8Zt1n0vYw3LrX5cA7dF9hJ2kM4pS6uB8eG0iK2mO4Q''"

definition empty_profile :: Profile where
  "empty_profile =
     \<lparr> avatar = None, bio = None, phone = None, location = None, website = None,
       github = None \<rparr>"

definition alice :: Account where
  "alice =
     \<lparr> acct_id = Some (RecordID ''account'' ''a1''), username = ''alice01'',
       password = Argon2id ''0123456789abcdef'' ''longpassword1'',
       email = Some ''a@example.com'', profile = empty_profile, rating = 0,
       credit_score = 60, is_admin = False, is_active = True,
       acct_created_at = 1700000000, acct_updated_at = 1700000000 \<rparr>"

definition bob :: Account where
  "bob =
     \<lparr> acct_id = Some (RecordID ''account'' ''a2''), username = ''bob02'',
       password = Argon2id ''fedcba9876543210'' ''longpassword2'',
       email = Some ''b@example.com'', profile = empty_profile, rating = 0,
       credit_score = 60, is_admin = False, is_active = True,
       acct_created_at = 1700000000, acct_updated_at = 1700000000 \<rparr>"

definition bob_session :: Session where
  "bob_session =
     generate (RecordID ''account'' ''a2'') ''d1'' 1700000000 sample_key
       ''00112233aabbccdd'' 1700000000 1700000000"

definition sample_db :: database where
  "sample_db =
     \<lparr> accounts = [alice, bob],
       sessions = [RecordID ''session'' ''d1'' \<mapsto> bob_session] \<rparr>"

definition bob_credentials :: Credentials where
  "bob_credentials =
     \<lparr> user_id = ''a2'', cred_username = ''bob02'', cred_token = token bob_session,
       cred_device_id = ''d1'' \<rparr>"

definition alice_login :: Login where
  "alice_login =
     \<lparr> identity = ''alice01'', login_password = ''longpassword1'', login_device_id = ''d1'' \<rparr>"

definition sample_env :: environment where
  "sample_env =
     \<lparr> env_key = ''Zx0cV9bN8mA7sD6fG5hJ4kL3qW2eR1tY0uI9oP8aS7d'',
       env_random_part = ''8899aabbccddeeff'',
       env_now_generate = 1700003600, env_now_iat = 1700003600,
       env_now_exp = 1700003600, env_now_save = 1700003600 \<rparr>"


section \<open>Keys the library accepts\<close>

text \<open>
  Every pattern \<open>prepare_key\<close> looks for has a hyphen in it, so a key without a hyphen
  is accepted.
\<close>

lemma remainders_after_absent:
  "c \<in> set p \<Longrightarrow> c \<notin> set s \<Longrightarrow> remainders_after p s = []"
proof (induction s)
  case Nil
  then show ?case by auto
next
  case (Cons x xs)
  have "take (length p) (x # xs) \<noteq> p"
  proof
    assume "take (length p) (x # xs) = p"
    then have "set p \<subseteq> set (x # xs)" by (metis set_take_subset)
    with Cons.prems show False by blast
  qed
  with Cons show ?case by simp
qed

lemma not_contains: "c \<in> set p \<Longrightarrow> c \<notin> set s \<Longrightarrow> \<not> contains p s"
  by (simp add: contains_def remainders_after_absent)

lemma no_dash_no_pem: "CHR ''-'' \<notin> set k \<Longrightarrow> \<not> is_pem_format k"
  by (simp add: is_pem_format_def remainders_after_absent [of "CHR ''-''"] list_ex_iff)

lemma no_dash_no_ssh:
  assumes "CHR ''-'' \<notin> set k"
  shows "\<not> is_ssh_key k"
proof -
  have a: "\<not> list_ex (\<lambda>f. contains f k) ssh_key_formats"
    using assms by (simp add: ssh_key_formats_def not_contains [of "CHR ''-''"])
  have b: "drop (length kt - length ''-cert-v01@openssh.com'') kt \<noteq> ''-cert-v01@openssh.com''"
    if "set kt \<subseteq> set k" for kt
  proof
    assume "drop (length kt - length ''-cert-v01@openssh.com'') kt = ''-cert-v01@openssh.com''"
    then have "set ''-cert-v01@openssh.com'' \<subseteq> set kt" by (metis set_drop_subset)
    then have "CHR ''-'' \<in> set kt" by simp
    with that assms show False by blast
  qed
  have "set (takeWhile (\<lambda>c. \<not> is_space c) k) \<subseteq> set k"
    by (auto dest: set_takeWhileD)
  from b [OF this] a show ?thesis
    by (simp add: is_ssh_key_def Let_def)
qed

lemma no_dash_accepted: "CHR ''-'' \<notin> set k \<Longrightarrow> prepare_key k = Inr k"
  by (simp add: prepare_key_def no_dash_no_pem no_dash_no_ssh)

lemma prepare_key_cases:
  "prepare_key k = Inr k \<or> prepare_key k = Inl InvalidKeyError"
  by (simp add: prepare_key_def)

lemma sample_keys_accepted:
  "prepare_key ''q8Zt1n0vYw3LrX5cA7dF9hJ2kM4pS6uB8eG0iK2mO4Q''
     = Inr ''q8Zt1n0vYw3LrX5cA7dF9hJ2kM4pS6uB8eG0iK2mO4Q''"
  "prepare_key ''Zx0cV9bN8mA7sD6fG5hJ4kL3qW2eR1tY0uI9oP8aS7d''
     = Inr ''Zx0cV9bN8mA7sD6fG5hJ4kL3qW2eR1tY0uI9oP8aS7d''"
  by (rule no_dash_accepted, simp)+

lemma sample_keys_symmetric:
  "\<not> is_pem_format ''q8Zt1n0vYw3LrX5cA7dF9hJ2kM4pS6uB8eG0iK2mO4Q''"
  "\<not> is_ssh_key ''q8Zt1n0vYw3LrX5cA7dF9hJ2kM4pS6uB8eG0iK2mO4Q''"
  "\<not> is_pem_format ''Zx0cV9bN8mA7sD6fG5hJ4kL3qW2eR1tY0uI9oP8aS7d''"
  "\<not> is_ssh_key ''Zx0cV9bN8mA7sD6fG5hJ4kL3qW2eR1tY0uI9oP8aS7d''"
  by (rule no_dash_no_pem no_dash_no_ssh, simp)+

lemma ssh_rsa_refused: "prepare_key ''ssh-rsa AAAAB3NzaC1yc2EAAAADAQABAAABgQC7'' = Inl InvalidKeyError"
proof -
  have "is_ssh_key ''ssh-rsa AAAAB3NzaC1yc2EAAAADAQABAAABgQC7''"
    by (simp add: is_ssh_key_def ssh_key_formats_def contains_def)
  then show ?thesis by (simp add: prepare_key_def)
qed

lemmas scenario_defs =
  sample_key_def empty_profile_def alice_def bob_def bob_session_def sample_db_def
  bob_credentials_def alice_login_def sample_env_def

lemmas token_defs =
  generate_def generate_token_def jwt_encode_def model_dump_def jwt_decode_def
  validate_claims_def validate_iat_def validate_nbf_def validate_exp_def python_int_def
  thirty_days_def is_valid_token_def expires_at_def issued_at_def sample_keys_accepted


section \<open>Issuing and validating\<close>

text \<open>
  What \<open>jwt_decode\<close> makes of a token \<open>generate_token\<close> issued, and when two keys
  have the same HMAC block.
\<close>

lemma generate_token_decode:
  "jwt_decode (generate_token acc dev k rnd now_iat now_exp) k' [''HS256''] now =
     (if prepare_key k' \<noteq> Inr k' then Inl InvalidKeyError
      else if hmac_block k \<noteq> hmac_block k' then Inl InvalidSignatureError
      else if now_iat > now then Inl ImmatureSignatureError
      else if now_exp + thirty_days \<le> now then Inl ExpiredSignatureError
      else Inr (model_dump \<lparr> account_id = id' acc, random_part = rnd, device_id = dev,
                              iat = now_iat, exp = now_exp + thirty_days \<rparr>))"
  using prepare_key_cases [of k']
  by (auto simp: generate_token_def jwt_encode_def jwt_decode_def validate_claims_def
        validate_iat_def validate_exp_def python_int_def model_dump_def)












text \<open>
  Claim C5. The \<^verbatim>\<open>exp\<close> of an issued token is not always its \<^verbatim>\<open>iat\<close> plus 30
  days: \<open>generate_token\<close> reads the clock once for \<^verbatim>\<open>iat\<close> and once more for
  \<^verbatim>\<open>exp\<close>, and when a new second begins between the two readings the token expires
  30 days and one second after it was issued.
\<close>

theorem expiry_not_thirty_days_after_issue:
  "issued_at (generate_token (RecordID ''account'' ''a2'') ''d1'' sample_key ''00112233aabbccdd''
       1700000000 1700000001) = Some 1700000000
   \<and> expires_at (generate_token (RecordID ''account'' ''a2'') ''d1'' sample_key
       ''00112233aabbccdd'' 1700000000 1700000001) = Some 1702592001
   \<and> (1702592001 :: int) \<noteq> 1700000000 + 30 * 24 * 60 * 60"
  by (simp add: token_defs)

text \<open>
  What an issued token does carry: the first reading as \<^verbatim>\<open>iat\<close>, the second plus
  2592000 seconds as \<^verbatim>\<open>exp\<close>.
\<close>

theorem issued_token_claims:
  "issued_at (generate_token acc dev k rnd now_iat now_exp) = Some now_iat
   \<and> expires_at (generate_token acc dev k rnd now_iat now_exp) = Some (now_exp + 2592000)"
  by (simp add: issued_at_def expires_at_def generate_token_def jwt_encode_def model_dump_def
        thirty_days_def)


section \<open>Token validation\<close>

text \<open>
  Claim C3. \<open>is_valid_token\<close> does raise. Its handlers catch
  \<^verbatim>\<open>InvalidTokenError\<close>; a token whose header is JSON nested too deep makes
  \<^verbatim>\<open>jwt.decode\<close> raise \<^verbatim>\<open>RecursionError\<close>, a session key in OpenSSH format
  makes it raise \<^verbatim>\<open>InvalidKeyError\<close>, and a signed token whose \<^verbatim>\<open>iat\<close> is
  no number makes it raise \<^verbatim>\<open>TypeError\<close>, and each of these reaches the caller.
\<close>

theorem is_valid_token_raises:
  "is_valid_token bob_session 1700000100 (DeepHeader ''W1tbW1tbW1tbW1tb'') = Inl RecursionError
   \<and> is_valid_token (bob_session \<lparr> key := ''ssh-rsa AAAAB3NzaC1yc2EAAAADAQABAAABgQC7'' \<rparr>)
        1700000100 (token bob_session) = Inl InvalidKeyError
   \<and> is_valid_token bob_session 1700000100
        (jwt_encode \<lparr> c_iat = Some NoIntType, c_nbf = None, c_exp = Some (IntValue 1702592000),
                       c_aud = None, c_private = [] \<rparr> sample_key) = Inl TypeError"
  by (simp add: scenario_defs token_defs ssh_rsa_refused)

text \<open>
  With a key the library accepts, \<open>is_valid_token\<close> returns \<^verbatim>\<open>False\<close> for a
  string that is no JWS, for a payload that is no JSON object and for a signature that is
  not the HMAC of header and payload under the session's key; for a token that
  \<open>generate_token\<close> issued it returns a boolean, and \<^verbatim>\<open>False\<close> from the second
  the token expires.
\<close>

theorem is_valid_token_on_accepted_key:
  assumes "\<not> is_pem_format (key self)" and "\<not> is_ssh_key (key self)"
  shows "is_valid_token self now (NotJws x) = Inr False
       \<and> is_valid_token self now (Jws a (NotJsonObject y) sg) = Inr False
       \<and> (sg \<noteq> HMAC_SHA256 (hmac_block (key self)) a p \<longrightarrow>
            is_valid_token self now (Jws a p sg) = Inr False)
       \<and> (\<exists>b. is_valid_token self now (generate_token acc dev k rnd now_iat now_exp) = Inr b)
       \<and> (now_exp + 2592000 \<le> now \<longrightarrow>
            is_valid_token self now (generate_token acc dev k rnd now_iat now_exp) = Inr False)"
proof -
  have ok: "prepare_key (key self) = Inr (key self)"
    using assms by (simp add: prepare_key_def)
  have "is_valid_token self now (NotJws x) = Inr False"
    by (simp add: is_valid_token_def jwt_decode_def)
  moreover have "is_valid_token self now (Jws a (NotJsonObject y) sg) = Inr False"
    by (simp add: is_valid_token_def jwt_decode_def ok split: option.splits)
  moreover have "is_valid_token self now (Jws a p sg) = Inr False"
    if "sg \<noteq> HMAC_SHA256 (hmac_block (key self)) a p"
    using that by (auto simp: is_valid_token_def jwt_decode_def ok split: option.splits)
  moreover have "\<exists>b. is_valid_token self now (generate_token acc dev k rnd now_iat now_exp) = Inr b"
    by (auto simp: is_valid_token_def generate_token_decode ok)
  moreover have "is_valid_token self now (generate_token acc dev k rnd now_iat now_exp) = Inr False"
    if "now_exp + 2592000 \<le> now"
    using that by (auto simp: is_valid_token_def generate_token_decode ok thirty_days_def)
  ultimately show ?thesis by blast
qed

text \<open>
  On Bob's session: a string that is no token, Bob's payload under a forged signature, and
  Bob's own token one second before its expiry and at it.
\<close>

theorem is_valid_token_on_accepted_key_witness:
  "\<not> is_pem_format (key bob_session) \<and> \<not> is_ssh_key (key bob_session)
   \<and> is_valid_token bob_session 1700000100 (NotJws ''garbage'') = Inr False
   \<and> NoMac ''forged'' \<noteq> HMAC_SHA256 (hmac_block (key bob_session)) (Some ''HS256'')
        (body (token bob_session))
   \<and> is_valid_token bob_session 1700000100
        (Jws (Some ''HS256'') (body (token bob_session)) (NoMac ''forged'')) = Inr False
   \<and> (1700000000 + 2592000 :: int) \<le> 1702592000
   \<and> is_valid_token bob_session 1702592000 (token bob_session) = Inr False
   \<and> is_valid_token bob_session 1702591999 (token bob_session) = Inr True"
proof -
  have a: "\<not> is_pem_format (key bob_session)" and b: "\<not> is_ssh_key (key bob_session)"
    by (simp_all add: bob_session_def generate_def sample_key_def sample_keys_symmetric)
  from is_valid_token_on_accepted_key [OF a b, of 1700000100 "''garbage''" "Some ''HS256''"
      "''x''" "NoMac ''forged''" "body (token bob_session)" "RecordID ''account'' ''a2''"
      "''d1''" sample_key "''00112233aabbccdd''" 1700000000 1700000000]
    is_valid_token_on_accepted_key [OF a b, of 1702592000 "''garbage''" "Some ''HS256''"
      "''x''" "NoMac ''forged''" "body (token bob_session)" "RecordID ''account'' ''a2''"
      "''d1''" sample_key "''00112233aabbccdd''" 1700000000 1700000000]
  show ?thesis
    using a b by (simp add: scenario_defs token_defs)
qed


section \<open>The credential check\<close>



text \<open>
  Claim C10. Two credentials with the same \<^verbatim>\<open>user_id\<close>, token and
  \<^verbatim>\<open>device_id\<close> get the same answer from \<open>is_valid_on\<close> on the same database at
  the same time, whatever their \<^verbatim>\<open>username\<close>.
\<close>

theorem is_valid_on_ignores_username:
  assumes "user_id c1 = user_id c2" and "cred_token c1 = cred_token c2"
    and "cred_device_id c1 = cred_device_id c2"
  shows "is_valid_on c1 db now = is_valid_on c2 db now"
  using assms by (simp add: is_valid_on_def split: option.splits)

text \<open>
  Bob's credentials under another username.
\<close>

theorem is_valid_on_ignores_username_witness:
  "user_id (bob_credentials \<lparr> cred_username := ''mallory'' \<rparr>) = user_id bob_credentials
   \<and> cred_token (bob_credentials \<lparr> cred_username := ''mallory'' \<rparr>) = cred_token bob_credentials
   \<and> cred_device_id (bob_credentials \<lparr> cred_username := ''mallory'' \<rparr>)
       = cred_device_id bob_credentials
   \<and> cred_username (bob_credentials \<lparr> cred_username := ''mallory'' \<rparr>)
       \<noteq> cred_username bob_credentials
   \<and> is_valid_on bob_credentials sample_db 1700000100 = Inr True
   \<and> is_valid_on (bob_credentials \<lparr> cred_username := ''mallory'' \<rparr>) sample_db 1700000100
       = Inr True"
  using is_valid_on_ignores_username [of "bob_credentials \<lparr> cred_username := ''mallory'' \<rparr>"
      bob_credentials sample_db 1700000100]
  by (simp add: scenario_defs token_defs is_valid_on_def get_by_id_def select_session_def)


section \<open>Refreshing a session\<close>

text \<open>
  Claim C6. \<open>refresh\<close> leaves the key, the id, the account and the two timestamps of
  the session as they were; the token becomes the one \<open>generate_token\<close> issues for the
  session's own account, device and key.
\<close>

theorem refresh_frame:
  "key (refresh self rnd now_iat now_exp) = key self
   \<and> session_id (refresh self rnd now_iat now_exp) = session_id self
   \<and> account (refresh self rnd now_iat now_exp) = account self
   \<and> created_at (refresh self rnd now_iat now_exp) = created_at self
   \<and> updated_at (refresh self rnd now_iat now_exp) = updated_at self
   \<and> token (refresh self rnd now_iat now_exp) =
       generate_token (account self) (id' (session_id self)) (key self) rnd now_iat now_exp"
  by (simp add: refresh_def)

text \<open>
  Bob's session refreshed an hour later: the same key, another token.
\<close>

theorem refresh_frame_witness:
  "key (refresh bob_session ''8899aabbccddeeff'' 1700003600 1700003600) = sample_key
   \<and> session_id (refresh bob_session ''8899aabbccddeeff'' 1700003600 1700003600)
       = RecordID ''session'' ''d1''
   \<and> account (refresh bob_session ''8899aabbccddeeff'' 1700003600 1700003600)
       = RecordID ''account'' ''a2''
   \<and> created_at (refresh bob_session ''8899aabbccddeeff'' 1700003600 1700003600) = 1700000000
   \<and> token (refresh bob_session ''8899aabbccddeeff'' 1700003600 1700003600)
       = generate_token (RecordID ''account'' ''a2'') ''d1'' sample_key ''8899aabbccddeeff''
           1700003600 1700003600
   \<and> token (refresh bob_session ''8899aabbccddeeff'' 1700003600 1700003600) \<noteq> token bob_session"
  using refresh_frame [of bob_session "''8899aabbccddeeff''" 1700003600 1700003600]
  by (simp add: bob_session_def generate_def generate_token_def jwt_encode_def model_dump_def)

text \<open>
  Claim C7. Refreshing a session changes the outcome of validating no token at no time:
  a token that is valid for the session is valid for the refreshed session.
\<close>

theorem refresh_keeps_tokens_valid:
  "is_valid_token (refresh self rnd now_iat now_exp) now t = is_valid_token self now t"
  by (simp add: is_valid_token_def refresh_def)

text \<open>
  Bob's first token is still valid after the refresh.
\<close>

theorem refresh_keeps_tokens_valid_witness:
  "is_valid_token bob_session 1700003700 (token bob_session) = Inr True
   \<and> is_valid_token (refresh bob_session ''8899aabbccddeeff'' 1700003600 1700003600) 1700003700
        (token bob_session) = Inr True"
  using refresh_keeps_tokens_valid [of bob_session "''8899aabbccddeeff''" 1700003600 1700003600
      1700003700 "token bob_session"]
  by (simp add: scenario_defs token_defs)


section \<open>Password verification\<close>

text \<open>
  Claim C4. \<open>verify_password\<close> returns \<^verbatim>\<open>False\<close> for a password that does not
  match, and raises for a hash string that is malformed: its handler catches
  \<^verbatim>\<open>VerifyMismatchError\<close> only, and the library reports a malformed hash with
  \<^verbatim>\<open>InvalidHashError\<close> or \<^verbatim>\<open>VerificationError\<close>.
\<close>

theorem verify_password_malformed:
  "verify_password ''wrongpassword'' (Argon2id ''0123456789abcdef'' ''longpassword1'') = Inr False
   \<and> verify_password ''longpassword1'' (NotArgon2 ''not-a-hash'') = Inl InvalidHashError
   \<and> verify_password ''longpassword1'' (Undecodable ''$argon2id$v=19$m=65536,t=3,p=4$'')
       = Inl VerificationError"
  by (simp add: verify_password_def pwd_hasher_verify_def)


section \<open>Deleting an account\<close>

lemma select_account_id: "select_account db rid = Some a \<Longrightarrow> acct_id a = Some rid"
  by (auto simp: select_account_def find_Some_iff)

lemma select_account_deleted:
  "select_account (db \<lparr> accounts := filter (\<lambda>a. acct_id a \<noteq> Some rid) (accounts db) \<rparr>) rid = None"
  by (simp add: select_account_def find_None_iff)

lemma delete_account_row_sessions:
  assumes "delete_account_row rid db = (Some a, db')"
  shows "sessions db' =
           (\<lambda>r. case sessions db r of None \<Rightarrow> None
                 | Some s \<Rightarrow> if account s = rid then None else Some s)"
    and "select_account db' rid = None"
  using assms select_account_deleted [where db = db and rid = rid]
  by (auto simp: delete_account_row_def delete_sessions_def select_account_def
           split: option.splits)

lemma delete_account_success:
  assumes "delete_account c now db = Inr (r, db')" and "code r = 0"
  shows "\<exists>a. delete_account_row (RecordID ''account'' (user_id c)) db = (Some a, db')"
  using assms
  by (auto simp: delete_account_def account_get_by_id_def account_delete_on_def
           dest!: select_account_id
           split: sum.splits if_splits option.splits prod.splits)

text \<open>
  Claim C8. When \<open>delete_account\<close> answers with code 0, the account is gone, no
  session left in the database refers to it, and looking up any session that referred
  to it finds nothing.
\<close>

theorem delete_account_cascades:
  assumes "delete_account c now db = Inr (r, db')" and "code r = 0"
  shows "account_get_by_id db' (RecordID ''account'' (user_id c)) = None
       \<and> (\<forall>rid s. get_by_id db' rid = Some s \<longrightarrow> account s \<noteq> RecordID ''account'' (user_id c))
       \<and> (get_by_id db rid = Some s \<and> account s = RecordID ''account'' (user_id c) \<longrightarrow>
            get_by_id db' rid = None)"
proof -
  from delete_account_success [OF assms] obtain a
    where row: "delete_account_row (RecordID ''account'' (user_id c)) db = (Some a, db')" ..
  note facts = delete_account_row_sessions [OF row]
  show ?thesis
    using facts(2)
    by (auto simp: facts(1) get_by_id_def select_session_def account_get_by_id_def
             split: option.splits if_splits)
qed

text \<open>
  Bob deletes his account: the session on device \<^verbatim>\<open>d1\<close> goes with it.
\<close>

theorem delete_account_cascades_witness:
  "\<exists>r db'. delete_account bob_credentials 1700000100 sample_db = Inr (r, db')
     \<and> code r = 0
     \<and> get_by_id sample_db (RecordID ''session'' ''d1'') = Some bob_session
     \<and> account bob_session = RecordID ''account'' (user_id bob_credentials)
     \<and> get_by_id db' (RecordID ''session'' ''d1'') = None
     \<and> account_get_by_id db' (RecordID ''account'' (user_id bob_credentials)) = None"
proof -
  let ?r = "\<lparr> message = ''Account deleted successfully.'', data = None :: unit option,
              code = 0 \<rparr>"
  let ?db = "delete_sessions (RecordID ''account'' ''a2'') (sample_db \<lparr> accounts := [alice] \<rparr>)"
  have run: "delete_account bob_credentials 1700000100 sample_db = Inr (?r, ?db)"
    by (simp add: delete_account_def is_valid_on_def get_by_id_def select_session_def
          account_get_by_id_def select_account_def account_delete_on_def
          delete_account_row_def scenario_defs token_defs)
  have ok: "code ?r = 0" by simp
  have before: "get_by_id sample_db (RecordID ''session'' ''d1'') = Some bob_session
      \<and> account bob_session = RecordID ''account'' (user_id bob_credentials)"
    by (simp add: get_by_id_def select_session_def scenario_defs generate_def)
  from delete_account_cascades [OF run ok, of "RecordID ''session'' ''d1''" bob_session] before
  have "get_by_id ?db (RecordID ''session'' ''d1'') = None
      \<and> account_get_by_id ?db (RecordID ''account'' (user_id bob_credentials)) = None"
    by blast
  with run ok before show ?thesis by blast
qed


section \<open>Logging in on a device that has a session\<close>

text \<open>
  Claim C9. When the identity names one account, the password verifies and a session is
  stored under the device id, \<open>login\<close> answers with the authenticated account's id and
  username and with a token newly issued for that session's own account and key, and
  stores the session with the new token; the session's account is not compared with the
  authenticated account and stays what it was.
\<close>

theorem login_refreshes_existing_session:
  assumes "get_by_identity db (identity req) = Some acct"
    and "acct_id acct = Some aid"
    and "verify_password (login_password req) (password acct) = Inr True"
    and "get_by_id db (RecordID ''session'' (login_device_id req)) = Some s"
  shows "\<exists>db'.
      login req env db =
        Inr (\<lparr> message = ''Logged in successfully.'',
               data = Some \<lparr> ut_user_id = id' aid, ut_username = username acct,
                             ut_token = generate_token (account s) (id' (session_id s)) (key s)
                                          (env_random_part env) (env_now_iat env)
                                          (env_now_exp env) \<rparr>,
               code = 0 \<rparr>, db')
    \<and> get_by_id db' (session_id s) =
        Some (s \<lparr> token := generate_token (account s) (id' (session_id s)) (key s)
                              (env_random_part env) (env_now_iat env) (env_now_exp env),
                  updated_at := env_now_save env \<rparr>)
    \<and> map_option account (get_by_id db' (session_id s)) = Some (account s)"
  using assms
  by (simp add: login_def refresh_and_save_on_def save_on_def refresh_def upsert_session_def
        get_by_id_def select_session_def Let_def)

text \<open>
  Alice logs in on the device that holds Bob's session: she is answered with a token of
  Bob's session, which still belongs to Bob.
\<close>

theorem login_refreshes_existing_session_witness:
  "get_by_identity sample_db (identity alice_login) = Some alice
   \<and> acct_id alice = Some (RecordID ''account'' ''a1'')
   \<and> verify_password (login_password alice_login) (password alice) = Inr True
   \<and> get_by_id sample_db (RecordID ''session'' (login_device_id alice_login)) = Some bob_session
   \<and> account bob_session = RecordID ''account'' ''a2''
   \<and> (\<exists>db'.
        login alice_login sample_env sample_db =
          Inr (\<lparr> message = ''Logged in successfully.'',
                 data = Some \<lparr> ut_user_id = ''a1'', ut_username = ''alice01'',
                               ut_token = generate_token (RecordID ''account'' ''a2'') ''d1''
                                            sample_key ''8899aabbccddeeff''
                                            1700003600 1700003600 \<rparr>,
                 code = 0 \<rparr>, db')
        \<and> map_option account (get_by_id db' (RecordID ''session'' ''d1''))
            = Some (RecordID ''account'' ''a2''))"
proof -
  have a: "get_by_identity sample_db (identity alice_login) = Some alice"
    by (simp add: get_by_identity_def scenario_defs)
  have b: "acct_id alice = Some (RecordID ''account'' ''a1'')"
    by (simp add: alice_def)
  have c: "verify_password (login_password alice_login) (password alice) = Inr True"
    by (simp add: verify_password_def pwd_hasher_verify_def scenario_defs)
  have d: "get_by_id sample_db (RecordID ''session'' (login_device_id alice_login))
      = Some bob_session"
    by (simp add: get_by_id_def select_session_def scenario_defs)
  have e: "account bob_session = RecordID ''account'' ''a2''"
    and f: "session_id bob_session = RecordID ''session'' ''d1''"
    and g: "key bob_session = sample_key"
    by (simp_all add: bob_session_def generate_def)
  have h: "username alice = ''alice01''" by (simp add: alice_def)
  have i: "env_random_part sample_env = ''8899aabbccddeeff''"
    "env_now_iat sample_env = 1700003600" "env_now_exp sample_env = 1700003600"
    by (simp_all add: sample_env_def)
  from login_refreshes_existing_session [OF a b c d, of sample_env]
  show ?thesis
    unfolding e f g h i using a b c d by auto
qed


section \<open>The credentials a login returns\<close>

text \<open>
  On a device with no session, \<open>login\<close> stores a new session, and when the library
  accepts the new key, the user id, token and device id of its answer pass
  \<open>is_valid_on\<close> from the reading of the token's \<^verbatim>\<open>iat\<close> until 30 days after the
  reading of its \<^verbatim>\<open>exp\<close>.
\<close>

theorem login_new_session_credentials:
  assumes "get_by_identity db (identity req) = Some acct"
    and "acct_id acct = Some aid"
    and "verify_password (login_password req) (password acct) = Inr True"
    and "get_by_id db (RecordID ''session'' (login_device_id req)) = None"
    and "\<not> is_pem_format (env_key env)" and "\<not> is_ssh_key (env_key env)"
    and "env_now_iat env \<le> now" and "now < env_now_exp env + 2592000"
  shows "\<exists>tok db'.
      login req env db =
        Inr (\<lparr> message = ''Logged in successfully.'',
               data = Some \<lparr> ut_user_id = id' aid, ut_username = username acct,
                             ut_token = tok \<rparr>,
               code = 0 \<rparr>, db')
    \<and> is_valid_on \<lparr> user_id = id' aid, cred_username = username acct, cred_token = tok,
                    cred_device_id = login_device_id req \<rparr> db' now = Inr True"
  using assms
  by (simp add: login_def save_on_def generate_def upsert_session_def get_by_id_def
        select_session_def is_valid_on_def is_valid_token_def generate_token_decode
        prepare_key_def thirty_days_def Let_def)

text \<open>
  Alice logs in on device \<^verbatim>\<open>d2\<close>, which has no session.
\<close>

theorem login_new_session_credentials_witness:
  "get_by_identity sample_db (identity (alice_login \<lparr> login_device_id := ''d2'' \<rparr>)) = Some alice
   \<and> acct_id alice = Some (RecordID ''account'' ''a1'')
   \<and> verify_password (login_password (alice_login \<lparr> login_device_id := ''d2'' \<rparr>))
        (password alice) = Inr True
   \<and> get_by_id sample_db
        (RecordID ''session'' (login_device_id (alice_login \<lparr> login_device_id := ''d2'' \<rparr>)))
       = None
   \<and> \<not> is_pem_format (env_key sample_env) \<and> \<not> is_ssh_key (env_key sample_env)
   \<and> env_now_iat sample_env \<le> 1700003700 \<and> 1700003700 < env_now_exp sample_env + 2592000
   \<and> (\<exists>tok db'.
        login (alice_login \<lparr> login_device_id := ''d2'' \<rparr>) sample_env sample_db =
          Inr (\<lparr> message = ''Logged in successfully.'',
                 data = Some \<lparr> ut_user_id = ''a1'', ut_username = ''alice01'', ut_token = tok \<rparr>,
                 code = 0 \<rparr>, db')
        \<and> is_valid_on \<lparr> user_id = ''a1'', cred_username = ''alice01'', cred_token = tok,
                        cred_device_id = ''d2'' \<rparr> db' 1700003700 = Inr True)"
proof -
  let ?req = "alice_login \<lparr> login_device_id := ''d2'' \<rparr>"
  have a: "get_by_identity sample_db (identity ?req) = Some alice"
    by (simp add: get_by_identity_def scenario_defs)
  have b: "acct_id alice = Some (RecordID ''account'' ''a1'')"
    by (simp add: alice_def)
  have c: "verify_password (login_password ?req) (password alice) = Inr True"
    by (simp add: verify_password_def pwd_hasher_verify_def scenario_defs)
  have d: "get_by_id sample_db (RecordID ''session'' (login_device_id ?req)) = None"
    by (simp add: get_by_id_def select_session_def scenario_defs)
  have k: "\<not> is_pem_format (env_key sample_env)" "\<not> is_ssh_key (env_key sample_env)"
    by (simp_all add: sample_env_def sample_keys_symmetric)
  have e: "env_now_iat sample_env \<le> 1700003700"
    and f: "1700003700 < env_now_exp sample_env + 2592000"
    by (simp_all add: sample_env_def)
  have g: "username alice = ''alice01''" "login_device_id ?req = ''d2''"
    by (simp_all add: alice_def alice_login_def)
  from login_new_session_credentials [OF a b c d k e f]
  show ?thesis
    unfolding g using a b c d k e f by (auto simp: g)
qed

text \<open>
  On a device whose session belongs to an account with another id, \<open>login\<close> succeeds,
  and the user id, token and device id of its answer do not pass \<open>is_valid_on\<close>: the
  session still names the other account.
\<close>

theorem login_existing_session_of_other_account:
  assumes "get_by_identity db (identity req) = Some acct"
    and "acct_id acct = Some aid"
    and "verify_password (login_password req) (password acct) = Inr True"
    and "get_by_id db (RecordID ''session'' (login_device_id req)) = Some s"
    and "id' (account s) \<noteq> id' aid"
  shows "\<exists>tok db'.
      login req env db =
        Inr (\<lparr> message = ''Logged in successfully.'',
               data = Some \<lparr> ut_user_id = id' aid, ut_username = username acct,
                             ut_token = tok \<rparr>,
               code = 0 \<rparr>, db')
    \<and> is_valid_on \<lparr> user_id = id' aid, cred_username = username acct, cred_token = tok,
                    cred_device_id = login_device_id req \<rparr> db' now = Inr False"
  using assms
  by (auto simp: login_def refresh_and_save_on_def save_on_def refresh_def upsert_session_def
        get_by_id_def select_session_def is_valid_on_def Let_def)

text \<open>
  Alice logs in on device \<^verbatim>\<open>d1\<close>, which holds Bob's session.
\<close>

theorem login_existing_session_of_other_account_witness:
  "get_by_identity sample_db (identity alice_login) = Some alice
   \<and> acct_id alice = Some (RecordID ''account'' ''a1'')
   \<and> verify_password (login_password alice_login) (password alice) = Inr True
   \<and> get_by_id sample_db (RecordID ''session'' (login_device_id alice_login)) = Some bob_session
   \<and> id' (account bob_session) \<noteq> id' (RecordID ''account'' ''a1'')
   \<and> (\<exists>tok db'.
        login alice_login sample_env sample_db =
          Inr (\<lparr> message = ''Logged in successfully.'',
                 data = Some \<lparr> ut_user_id = ''a1'', ut_username = ''alice01'', ut_token = tok \<rparr>,
                 code = 0 \<rparr>, db')
        \<and> is_valid_on \<lparr> user_id = ''a1'', cred_username = ''alice01'', cred_token = tok,
                        cred_device_id = ''d1'' \<rparr> db' 1700003700 = Inr False)"
proof -
  have a: "get_by_identity sample_db (identity alice_login) = Some alice"
    by (simp add: get_by_identity_def scenario_defs)
  have b: "acct_id alice = Some (RecordID ''account'' ''a1'')"
    by (simp add: alice_def)
  have c: "verify_password (login_password alice_login) (password alice) = Inr True"
    by (simp add: verify_password_def pwd_hasher_verify_def scenario_defs)
  have d: "get_by_id sample_db (RecordID ''session'' (login_device_id alice_login))
      = Some bob_session"
    by (simp add: get_by_id_def select_session_def scenario_defs)
  have e: "id' (account bob_session) \<noteq> id' (RecordID ''account'' ''a1'')"
    by (simp add: bob_session_def generate_def)
  have g: "username alice = ''alice01''" "login_device_id alice_login = ''d1''"
    by (simp_all add: alice_def alice_login_def)
  from login_existing_session_of_other_account [OF a b c d e, of sample_env 1700003700]
  show ?thesis
    unfolding g using a b c d e by (auto simp: g)
qed

end
